theory Spec2Isabelle
  imports Main
begin

section \<open>Request identity middleware: the encoding layer\<close>

text \<open>
  The model follows \<^verbatim>\<open>packages/request-id/src/middleware.ts\<close>. A JavaScript string is a
  \<^typ>\<open>string\<close> (a list of characters), a value of type \<^verbatim>\<open>string | undefined\<close> (or
  \<^verbatim>\<open>string | void\<close>) is a \<^typ>\<open>string option\<close> with \<^term>\<open>None\<close> for
  \<^verbatim>\<open>undefined\<close>, and an \<^verbatim>\<open>Array<number>\<close> of bytes is a list of natural numbers.
\<close>

subsection \<open>Library functions of the language\<close>

text \<open>
  \<^verbatim>\<open>s.slice(b, e)\<close> for \<open>0 \<le> b\<close> and \<open>0 \<le> e\<close>: the elements from index \<open>b\<close> up to, not
  including, index \<open>e\<close>; both indices are clamped to the length, and the result is empty
  when \<open>e \<le> b\<close>. It is the same on strings and on arrays.
\<close>

definition slice :: "nat \<Rightarrow> nat \<Rightarrow> 'a list \<Rightarrow> 'a list" where
  "slice b e s = take (e - b) (drop b s)"

text \<open>\<^verbatim>\<open>s.substr(b)\<close> for \<open>0 \<le> b\<close>: the rest of the string from index \<open>b\<close>.\<close>

definition substr :: "nat \<Rightarrow> string \<Rightarrow> string" where
  "substr b s = drop b s"

text \<open>
  \<^verbatim>\<open>s.replace(p, r)\<close> with a one-character string pattern \<open>p\<close>: only the first
  occurrence of the pattern is replaced.
\<close>

fun replace :: "char \<Rightarrow> string \<Rightarrow> string \<Rightarrow> string" where
  "replace p r [] = []"
| "replace p r (c # cs) = (if c = p then r @ cs else c # replace p r cs)"

text \<open>\<^verbatim>\<open>n.toString(16)\<close> on a non-negative integer: lower-case digits, no leading zero.\<close>

definition hexDigit :: "nat \<Rightarrow> char" where
  "hexDigit d = ''0123456789abcdef'' ! d"

fun toString16 :: "nat \<Rightarrow> string" where
  "toString16 n =
     (if n < 16 then [hexDigit n] else toString16 (n div 16) @ [hexDigit (n mod 16)])"

declare toString16.simps [simp del]

text \<open>
  A value is truthy when it is a non-empty string; \<^verbatim>\<open>undefined\<close> and \<^verbatim>\<open>''\<close> are falsy.
  \<^verbatim>\<open>a || b\<close> is \<open>a\<close> when \<open>a\<close> is truthy and \<open>b\<close> otherwise; \<open>or_else\<close> is the same
  operator where the right operand is always a string, so that the result is one.
\<close>

definition truthy :: "string option \<Rightarrow> bool" where
  "truthy a = (case a of None \<Rightarrow> False | Some s \<Rightarrow> s \<noteq> [])"

definition or_js :: "string option \<Rightarrow> string option \<Rightarrow> string option" where
  "or_js a b = (if truthy a then a else b)"

definition or_else :: "string option \<Rightarrow> string \<Rightarrow> string" where
  "or_else a b = (case a of None \<Rightarrow> b | Some s \<Rightarrow> if s \<noteq> [] then s else b)"

subsection \<open>Bytes to text\<close>

text \<open>
  The table built by the loop at module level: entry \<open>i\<close>, for \<open>i\<close> from 0 to 255, is
  \<^verbatim>\<open>(i + 0x100).toString(16).substr(1)\<close>.
\<close>

definition byteToHex :: "string list" where
  "byteToHex = map (\<lambda>i. substr 1 (toString16 (i + 0x100))) [0..<256]"

text \<open>
  \<^verbatim>\<open>bytes.map((byte) => byteToHex[byte]).join('')\<close>. An index outside the table reads
  \<^verbatim>\<open>undefined\<close>, which \<^verbatim>\<open>join\<close> renders as the empty string.
\<close>

definition bytesToHexString :: "nat list \<Rightarrow> string" where
  "bytesToHexString bytes =
     concat (map (\<lambda>byte. if byte < 256 then byteToHex ! byte else []) bytes)"

definition formatHexAsUUID :: "string \<Rightarrow> string" where
  "formatHexAsUUID hexString =
     concat [slice 0 8 hexString, ''-'',
             slice 8 12 hexString, ''-'',
             slice 12 16 hexString, ''-'',
             slice 16 24 hexString, ''-'',
             slice 24 36 hexString]"

definition bytesToUuid :: "nat list \<Rightarrow> string" where
  "bytesToUuid bytes = (let hexString = bytesToHexString bytes in formatHexAsUUID hexString)"

definition convertMaybeUuidToHexString :: "string option \<Rightarrow> string option" where
  "convertMaybeUuidToHexString uuid =
     (case uuid of
        None \<Rightarrow> None
      | Some u \<Rightarrow> if u = [] then None else Some (replace CHR ''-'' [] u))"

definition convertMaybeHexStringToUuid :: "string option \<Rightarrow> string option" where
  "convertMaybeHexStringToUuid hexString =
     (case hexString of
        None \<Rightarrow> None
      | Some h \<Rightarrow> if h = [] then None else Some (formatHexAsUUID h))"

section \<open>The resolution layer\<close>

subsection \<open>Data\<close>

text \<open>
  The identifier bundle, with \<open>parentId\<close> optional, and the context type that wraps it
  under the key \<^verbatim>\<open>requestIdentity\<close>.
\<close>

record RequestIdentity =
  correlationId :: string
  parentId :: "string option"
  requestId :: string
  sessionId :: string
  spanId :: string
  traceId :: string

record RequestIdentifierContext =
  requestIdentity :: RequestIdentity

text \<open>
  A header object maps a key to a value of type \<^verbatim>\<open>string | undefined\<close>: a key can be
  present with the value \<^verbatim>\<open>undefined\<close> (\<open>Some None\<close>), which is what the middleware
  writes under the three parent keys when there is no parent identifier. Reading a key
  gives \<^verbatim>\<open>undefined\<close> both when the key is absent and when its value is
  \<^verbatim>\<open>undefined\<close>. The order of the keys of an object is not modelled.
\<close>

type_synonym header_map = "string \<rightharpoonup> string option"

definition get :: "header_map \<Rightarrow> string \<Rightarrow> string option" where
  "get hs k = (case hs k of None \<Rightarrow> None | Some v \<Rightarrow> v)"

text \<open>
  The event and the handler's result are objects of which the middleware touches the
  \<^verbatim>\<open>headers\<close> property only; the property may be missing (\<^verbatim>\<open>undefined\<close> or
  \<^verbatim>\<open>null\<close>). All other properties are the extension of the record.
\<close>

record envelope =
  headers :: "header_map option"

text \<open>
  What an asynchronous function rejects with: the \<^verbatim>\<open>TypeError\<close> of reading a property
  of \<^verbatim>\<open>undefined\<close> or \<^verbatim>\<open>null\<close>, or any value a handler throws.
\<close>

datatype 'e thrown = TypeError | Thrown 'e

text \<open>
  A handler takes the event and the context and promises a result: the promise is
  rejected (\<open>Inl\<close>) or fulfilled (\<open>Inr\<close>), possibly with \<^verbatim>\<open>undefined\<close> (\<open>Inr None\<close>).
  A parameter for which the caller passes no argument is \<^verbatim>\<open>undefined\<close> (\<open>None\<close>).
\<close>

type_synonym ('a, 'e, 'r) Handler =
  "'a envelope_scheme \<Rightarrow> RequestIdentifierContext option
     \<Rightarrow> 'e thrown + 'r envelope_scheme option"

text \<open>
  The two buffers are filled by \<^verbatim>\<open>uuidv4(null, buffer)\<close> of the \<^verbatim>\<open>uuid\<close> package, which
  is not part of this repository: it writes 16 bytes, each from 0 to 255. The buffers are
  parameters of the model, and \<open>uuidBuffer\<close> is what the package guarantees about them.
\<close>

definition uuidBuffer :: "nat list \<Rightarrow> bool" where
  "uuidBuffer bytes = (length bytes = 16 \<and> list_all (\<lambda>byte. byte < 256) bytes)"

subsection \<open>Resolution of the identifiers\<close>

definition requestIdentifierContext ::
  "header_map \<Rightarrow> nat list \<Rightarrow> nat list \<Rightarrow> RequestIdentifierContext" where
  "requestIdentifierContext hs trace span =
     (let correlationId' = or_js (get hs ''correlation-id'') (get hs ''x-correlation-id'');
          parentId' = or_js (or_js (get hs ''parent-id'') (get hs ''x-parent-id''))
                        (get hs ''x-b3-parentspanid'');
          requestId' = or_js (get hs ''request-id'') (get hs ''x-request-id'');
          sessionId' = or_js (get hs ''session-id'') (get hs ''x-session-id'');
          spanId' = or_js (or_js (get hs ''span-id'') (get hs ''x-span-id''))
                      (get hs ''x-b3-spanid'');
          traceId' = or_js (or_js (get hs ''trace-id'') (get hs ''x-trace-id''))
                       (get hs ''x-b3-traceid'')
      in \<lparr>requestIdentity = \<lparr>
            correlationId =
              or_else (or_js correlationId' (convertMaybeHexStringToUuid traceId'))
                (bytesToUuid trace),
            parentId = (if truthy parentId' then parentId' else None),
            requestId =
              or_else (or_js (or_js requestId' correlationId')
                         (convertMaybeHexStringToUuid traceId'))
                (bytesToUuid trace),
            sessionId =
              or_else (or_js (or_js sessionId' correlationId')
                         (convertMaybeHexStringToUuid traceId'))
                (bytesToUuid trace),
            spanId = or_else spanId' (bytesToHexString (slice 0 8 span)),
            traceId =
              or_else (or_js traceId' (convertMaybeUuidToHexString correlationId'))
                (bytesToHexString trace)\<rparr>\<rparr>)"

subsection \<open>The outbound headers and the middleware\<close>

text \<open>The object literal \<^verbatim>\<open>headers\<close> built after the handler has returned.\<close>

definition outboundHeaders :: "RequestIdentifierContext \<Rightarrow> header_map" where
  "outboundHeaders ctx =
     [''correlation-id'' \<mapsto> Some (correlationId (requestIdentity ctx)),
      ''x-correlation-id'' \<mapsto> Some (correlationId (requestIdentity ctx)),
      ''parent-id'' \<mapsto> parentId (requestIdentity ctx),
      ''x-parent-id'' \<mapsto> parentId (requestIdentity ctx),
      ''x-b3-parentspanid'' \<mapsto> parentId (requestIdentity ctx),
      ''request-id'' \<mapsto> Some (requestId (requestIdentity ctx)),
      ''x-request-id'' \<mapsto> Some (requestId (requestIdentity ctx)),
      ''session-id'' \<mapsto> Some (sessionId (requestIdentity ctx)),
      ''x-session-id'' \<mapsto> Some (sessionId (requestIdentity ctx)),
      ''span-id'' \<mapsto> Some (spanId (requestIdentity ctx)),
      ''x-span-id'' \<mapsto> Some (spanId (requestIdentity ctx)),
      ''x-b3-spanid'' \<mapsto> Some (spanId (requestIdentity ctx)),
      ''trace-id'' \<mapsto> Some (traceId (requestIdentity ctx)),
      ''x-trace-id'' \<mapsto> Some (traceId (requestIdentity ctx)),
      ''x-b3-traceid'' \<mapsto> Some (traceId (requestIdentity ctx))]"

text \<open>
  The middleware, with the two buffers as parameters. Reading \<^verbatim>\<open>event.headers[...]\<close>
  throws when the event has no \<^verbatim>\<open>headers\<close>, before the handler is called. The handler is
  called as \<^verbatim>\<open>next(event)\<close>: with the event as it came and no second argument. A
  rejection of the awaited promise rejects the middleware's own promise with the same
  value. Reading \<^verbatim>\<open>result.headers\<close> throws when the result is \<^verbatim>\<open>undefined\<close>. Otherwise
  the result is copied, with \<^verbatim>\<open>headers\<close> replaced by the result's headers (or the empty
  object) overridden by the outbound headers.
\<close>

definition DefaultAPIGatewayProxyRequestIdentifyingMiddleware ::
  "('a, 'e, 'r) Handler \<Rightarrow> nat list \<Rightarrow> nat list
     \<Rightarrow> 'a envelope_scheme \<Rightarrow> 'e thrown + 'r envelope_scheme" where
  "DefaultAPIGatewayProxyRequestIdentifyingMiddleware next trace span event =
     (case headers event of
        None \<Rightarrow> Inl TypeError
      | Some hs \<Rightarrow>
          (let ctx = requestIdentifierContext hs trace span in
           case next event None of
             Inl failure \<Rightarrow> Inl failure
           | Inr None \<Rightarrow> Inl TypeError
           | Inr (Some result) \<Rightarrow>
               Inr (result\<lparr>headers :=
                      Some ((case headers result of None \<Rightarrow> Map.empty | Some rh \<Rightarrow> rh)
                            ++ outboundHeaders ctx)\<rparr>)))"

subsection \<open>Notions used to state the properties\<close>

text \<open>The fifteen keys the middleware reads from the event and writes to the result.\<close>

definition identityKeys :: "string list" where
  "identityKeys =
     [''correlation-id'', ''x-correlation-id'',
      ''parent-id'', ''x-parent-id'', ''x-b3-parentspanid'',
      ''request-id'', ''x-request-id'',
      ''session-id'', ''x-session-id'',
      ''span-id'', ''x-span-id'', ''x-b3-spanid'',
      ''trace-id'', ''x-trace-id'', ''x-b3-traceid'']"

text \<open>The value of a header of an event or of a result; \<open>None\<close> when the key is not there.\<close>

definition header :: "'a envelope_scheme \<Rightarrow> string \<Rightarrow> string option option" where
  "header obj k = (case headers obj of None \<Rightarrow> None | Some hs \<Rightarrow> hs k)"

text \<open>A hexadecimal string: every character is a hexadecimal digit.\<close>

definition isHexString :: "string \<Rightarrow> bool" where
  "isHexString s = list_all (\<lambda>c. c \<in> set ''0123456789abcdefABCDEF'') s"

text \<open>
  The hyphen-stripping inverse the specification speaks of, which removes every hyphen. It
  is not a function of the source, whose \<open>convertMaybeUuidToHexString\<close> removes the first
  hyphen only.
\<close>

definition stripAllHyphens :: "string \<Rightarrow> string" where
  "stripAllHyphens s = filter (\<lambda>c. c \<noteq> CHR ''-'') s"

text \<open>
  A handler that reports what it was given: it answers with the correlation identifier of
  the context it received under the header \<^verbatim>\<open>seen-correlation-id\<close>, and with
  \<^verbatim>\<open>undefined\<close> there when it received no context.
\<close>

definition reportContext :: "(unit, unit, unit) Handler" where
  "reportContext event context =
     Inr (Some \<lparr>headers = Some [''seen-correlation-id'' \<mapsto>
        (case context of
           None \<Rightarrow> None
         | Some ctx \<Rightarrow> Some (correlationId (requestIdentity ctx)))]\<rparr>)"

text \<open>Two buffers as \<^verbatim>\<open>uuidv4\<close> may fill them, for the examples.\<close>

definition traceExample :: "nat list" where
  "traceExample = [0, 1, 2, 3, 4, 5, 70, 7, 136, 9, 10, 11, 12, 13, 14, 255]"

definition spanExample :: "nat list" where
  "spanExample = [16, 32, 48, 64, 80, 96, 79, 128, 144, 160, 176, 192, 208, 224, 240, 1]"

section \<open>Properties\<close>

subsection \<open>Auxiliary facts\<close>

lemma toString16_three_digits:
  "i < 256 \<Longrightarrow> toString16 (i + 256) = [hexDigit 1, hexDigit (i div 16), hexDigit (i mod 16)]"
proof -
  assume i: "i < 256"
  have a: "toString16 (i + 256) = toString16 ((i + 256) div 16) @ [hexDigit ((i + 256) mod 16)]"
    by (subst toString16.simps) simp
  have d: "(i + 256) div 16 = i div 16 + 16" by simp
  have "(i + 16 * 16) mod 16 = i mod 16" by (rule mod_mult_self2)
  then have m: "(i + 256) mod 16 = i mod 16" by simp
  have lt: "i div 16 < 16" using i by simp
  have d2: "(i div 16 + 16) div 16 = 1" using lt div_add_self2[of 16 "i div 16"] by simp
  have m2: "i div 16 mod 16 = i div 16" using lt by (rule mod_less)
  have b: "toString16 (i div 16 + 16) = toString16 1 @ [hexDigit (i div 16)]"
    by (subst toString16.simps) (simp add: d2 m2)
  have c: "toString16 1 = [hexDigit 1]"
    by (subst toString16.simps) simp
  show ?thesis using c by (simp add: a d m b)
qed

lemma byteToHex_nth:
  "i < 256 \<Longrightarrow> byteToHex ! i = [hexDigit (i div 16), hexDigit (i mod 16)]"
proof -
  assume i: "i < 256"
  have "map (\<lambda>i. substr 1 (toString16 (i + 0x100))) [0..<256] ! i = substr 1 (toString16 (0 + i + 0x100))"
    using i by (intro nth_map_upt) simp
  then show ?thesis using i by (simp add: byteToHex_def substr_def toString16_three_digits)
qed

lemma length_bytesToHexString:
  "list_all (\<lambda>byte. byte < 256) bytes \<Longrightarrow> length (bytesToHexString bytes) = 2 * length bytes"
  by (induction bytes) (simp_all add: bytesToHexString_def byteToHex_nth)

lemma uuidBuffer_hex_length:
  assumes "uuidBuffer bytes"
  shows "length (bytesToHexString bytes) = 32"
    and "length (bytesToHexString (slice 0 8 bytes)) = 16"
proof -
  from assms have len: "length bytes = 16" and all: "list_all (\<lambda>byte. byte < 256) bytes"
    by (simp_all add: uuidBuffer_def)
  show "length (bytesToHexString bytes) = 32"
    using len all by (simp add: length_bytesToHexString)
  have "list_all (\<lambda>byte. byte < 256) (take 8 bytes)"
    using all by (auto simp: list_all_iff dest: in_set_takeD)
  then show "length (bytesToHexString (slice 0 8 bytes)) = 16"
    using len by (simp add: slice_def length_bytesToHexString)
qed

lemma uuidBuffer_hex_nonempty:
  assumes "uuidBuffer bytes"
  shows "bytesToHexString bytes \<noteq> []" and "bytesToHexString (slice 0 8 bytes) \<noteq> []"
  using uuidBuffer_hex_length[OF assms] by auto

lemma uuidBuffer_examples: "uuidBuffer traceExample" "uuidBuffer spanExample"
  by (simp_all add: uuidBuffer_def traceExample_def spanExample_def)

lemma hex_examples:
  "bytesToHexString traceExample = ''000102030405460788090a0b0c0d0eff''"
  "bytesToHexString (slice 0 8 spanExample) = ''1020304050604f80''"
  by (simp_all add: bytesToHexString_def byteToHex_nth hexDigit_def slice_def
      traceExample_def spanExample_def)

lemma formatHexAsUUID_nonempty: "formatHexAsUUID h \<noteq> []"
  by (simp add: formatHexAsUUID_def)

lemma bytesToUuid_nonempty: "bytesToUuid bytes \<noteq> []"
  by (simp add: bytesToUuid_def formatHexAsUUID_nonempty)

lemma or_else_nonempty: "b \<noteq> [] \<Longrightarrow> or_else a b \<noteq> []"
  by (simp add: or_else_def split: option.splits)

lemma or_else_None: "or_else None b = b"
  by (simp add: or_else_def)

lemma or_js_None: "or_js None b = b"
  by (simp add: or_js_def truthy_def)

lemma slices_cover:
  assumes "length h \<le> 36"
  shows "take 8 h @ take 4 (drop 8 h) @ take 4 (drop 12 h) @ take 8 (drop 16 h)
           @ take 12 (drop 24 h) = h"
proof -
  have e: "take 12 (drop 24 h) = drop 24 h" using assms by simp
  have d: "take 8 (drop 16 h) @ drop 24 h = drop 16 h"
    using append_take_drop_id[of 8 "drop 16 h"] by simp
  have c: "take 4 (drop 12 h) @ drop 16 h = drop 12 h"
    using append_take_drop_id[of 4 "drop 12 h"] by simp
  have b: "take 4 (drop 8 h) @ drop 12 h = drop 8 h"
    using append_take_drop_id[of 4 "drop 8 h"] by simp
  show ?thesis by (simp only: e d c b append_take_drop_id)
qed

lemma filter_slice_id:
  "\<forall>c\<in>set h. P c \<Longrightarrow> filter P (take n (drop m h)) = take n (drop m h)"
  by (auto simp: filter_id_conv dest: in_set_takeD in_set_dropD)

lemma stripAllHyphens_formatHexAsUUID:
  assumes "length h \<le> 36" "\<forall>c\<in>set h. c \<noteq> CHR ''-''"
  shows "stripAllHyphens (formatHexAsUUID h) = h"
proof -
  have t: "filter (\<lambda>c. c \<noteq> CHR ''-'') (take n h) = take n h" for n
    using filter_slice_id[OF assms(2), of n 0] by simp
  have "stripAllHyphens (formatHexAsUUID h) =
      take 8 h @ take 4 (drop 8 h) @ take 4 (drop 12 h) @ take 8 (drop 16 h)
           @ take 12 (drop 24 h)"
    by (simp add: stripAllHyphens_def formatHexAsUUID_def slice_def
        filter_slice_id[OF assms(2)] t)
  then show ?thesis using slices_cover[OF assms(1)] by simp
qed

lemma isHexString_no_hyphen:
  assumes "isHexString h"
  shows "\<forall>c\<in>set h. c \<noteq> CHR ''-''"
proof -
  have n: "CHR ''-'' \<notin> set ''0123456789abcdefABCDEF''" by simp
  from assms have "\<forall>c\<in>set h. c \<in> set ''0123456789abcdefABCDEF''"
    unfolding isHexString_def list_all_iff .
  with n show ?thesis by blast
qed

lemma absent_keys_get:
  assumes "\<forall>k\<in>set identityKeys. hs k = None"
  shows "get hs ''correlation-id'' = None" "get hs ''x-correlation-id'' = None"
    "get hs ''parent-id'' = None" "get hs ''x-parent-id'' = None"
    "get hs ''x-b3-parentspanid'' = None"
    "get hs ''request-id'' = None" "get hs ''x-request-id'' = None"
    "get hs ''session-id'' = None" "get hs ''x-session-id'' = None"
    "get hs ''span-id'' = None" "get hs ''x-span-id'' = None" "get hs ''x-b3-spanid'' = None"
    "get hs ''trace-id'' = None" "get hs ''x-trace-id'' = None" "get hs ''x-b3-traceid'' = None"
  using assms by (simp_all add: identityKeys_def get_def)

lemma outboundHeaders_outside:
  "k \<notin> set identityKeys \<Longrightarrow> outboundHeaders ctx k = None"
  by (simp add: outboundHeaders_def identityKeys_def)

lemma map_add_outside: "n k = None \<Longrightarrow> (m ++ n) k = m k"
  by (simp add: map_add_def)

lemma map_add_inside: "n k = Some v \<Longrightarrow> (m ++ n) k = Some v"
  by (simp add: map_add_def)

lemma middleware_fulfilled:
  assumes "headers event = Some hs" and "next event None = Inr (Some result)"
  shows "DefaultAPIGatewayProxyRequestIdentifyingMiddleware next trace span event =
    Inr (result\<lparr>headers :=
      Some ((case headers result of None \<Rightarrow> Map.empty | Some rh \<Rightarrow> rh)
            ++ outboundHeaders (requestIdentifierContext hs trace span))\<rparr>)"
  using assms by (simp add: DefaultAPIGatewayProxyRequestIdentifyingMiddleware_def)

subsection \<open>What the handler receives\<close>

text \<open>
  Claim C1 says that the wrapped handler receives, besides the event, a field
  \<^verbatim>\<open>requestIdentity\<close> holding the resolved bundle. The middleware builds the context but
  calls \<^verbatim>\<open>next(event)\<close>: the handler gets the event as it came and no context. Here the
  event carries the correlation identifier \<^verbatim>\<open>abc\<close>, which the bundle resolves (it comes
  back in the outbound header), and the reporting handler has seen no identity at all.
\<close>

theorem handler_called_without_identity:
  "\<exists>final.
     DefaultAPIGatewayProxyRequestIdentifyingMiddleware reportContext traceExample spanExample
       \<lparr>headers = Some [''correlation-id'' \<mapsto> Some ''abc'']\<rparr> = Inr final
   \<and> header final ''correlation-id'' = Some (Some ''abc'')
   \<and> header final ''seen-correlation-id'' = Some None"
  by (simp add: DefaultAPIGatewayProxyRequestIdentifyingMiddleware_def reportContext_def
      header_def outboundHeaders_def requestIdentifierContext_def Let_def get_def or_js_def
      or_else_def truthy_def map_add_def)

subsection \<open>The grouping of the hyphenated form\<close>

text \<open>
  Claim C2 says that \<open>formatHexAsUUID\<close> groups 32 characters as 8-4-4-4-12. The slices of
  the source are \<open>(0, 8)\<close>, \<open>(8, 12)\<close>, \<open>(12, 16)\<close>, \<open>(16, 24)\<close> and \<open>(24, 36)\<close>, so the
  groups of a 32-character string have the lengths 8-4-4-8-8, for a hexadecimal string and
  for the encoding of a 16-byte sequence alike. The characters do appear in order.
\<close>

theorem formatHexAsUUID_groups_example:
  "formatHexAsUUID ''0123456789abcdef0123456789abcdef'' = ''01234567-89ab-cdef-01234567-89abcdef''
   \<and> bytesToUuid traceExample = ''00010203-0405-4607-88090a0b-0c0d0eff''"
  by (simp add: formatHexAsUUID_def slice_def bytesToUuid_def bytesToHexString_def
      byteToHex_nth hexDigit_def traceExample_def)

subsection \<open>No inbound identity\<close>

text \<open>
  Claim C3: when the inbound header map has none of the fifteen identity keys, the
  correlation, request and session identifiers are all the hyphenated form of the trace
  buffer, there is no parent identifier, the span identifier is the hexadecimal form of the
  first 8 bytes of the span buffer, the trace identifier is the hexadecimal form of the
  whole trace buffer, and these two are non-empty and differ.
\<close>

theorem no_inbound_identity:
  assumes "uuidBuffer trace" and "uuidBuffer span"
    and "\<forall>k\<in>set identityKeys. hs k = None"
  shows "correlationId (requestIdentity (requestIdentifierContext hs trace span)) = bytesToUuid trace
    \<and> requestId (requestIdentity (requestIdentifierContext hs trace span)) = bytesToUuid trace
    \<and> sessionId (requestIdentity (requestIdentifierContext hs trace span)) = bytesToUuid trace
    \<and> parentId (requestIdentity (requestIdentifierContext hs trace span)) = None
    \<and> spanId (requestIdentity (requestIdentifierContext hs trace span))
        = bytesToHexString (slice 0 8 span)
    \<and> traceId (requestIdentity (requestIdentifierContext hs trace span))
        = bytesToHexString trace
    \<and> spanId (requestIdentity (requestIdentifierContext hs trace span)) \<noteq> []
    \<and> traceId (requestIdentity (requestIdentifierContext hs trace span)) \<noteq> []
    \<and> spanId (requestIdentity (requestIdentifierContext hs trace span))
        \<noteq> traceId (requestIdentity (requestIdentifierContext hs trace span))"
proof -
  note g = absent_keys_get[OF assms(3)]
  have ctx: "requestIdentity (requestIdentifierContext hs trace span) =
      \<lparr>correlationId = bytesToUuid trace, parentId = None, requestId = bytesToUuid trace,
       sessionId = bytesToUuid trace, spanId = bytesToHexString (slice 0 8 span),
       traceId = bytesToHexString trace\<rparr>"
    by (simp add: requestIdentifierContext_def g or_js_None or_else_None truthy_def
        convertMaybeHexStringToUuid_def convertMaybeUuidToHexString_def)
  have ls: "length (bytesToHexString (slice 0 8 span)) = 16"
    using assms(2) by (rule uuidBuffer_hex_length)
  have lt: "length (bytesToHexString trace) = 32"
    using assms(1) by (rule uuidBuffer_hex_length)
  from ls lt have ne: "bytesToHexString (slice 0 8 span) \<noteq> bytesToHexString trace"
    by auto
  from ls lt have "bytesToHexString (slice 0 8 span) \<noteq> []" "bytesToHexString trace \<noteq> []"
    by auto
  with ne show ?thesis by (simp add: ctx)
qed

theorem no_inbound_identity_witness:
  "uuidBuffer traceExample \<and> uuidBuffer spanExample
   \<and> correlationId (requestIdentity (requestIdentifierContext Map.empty traceExample spanExample))
       = ''00010203-0405-4607-88090a0b-0c0d0eff''
   \<and> requestId (requestIdentity (requestIdentifierContext Map.empty traceExample spanExample))
       = ''00010203-0405-4607-88090a0b-0c0d0eff''
   \<and> sessionId (requestIdentity (requestIdentifierContext Map.empty traceExample spanExample))
       = ''00010203-0405-4607-88090a0b-0c0d0eff''
   \<and> parentId (requestIdentity (requestIdentifierContext Map.empty traceExample spanExample))
       = None
   \<and> spanId (requestIdentity (requestIdentifierContext Map.empty traceExample spanExample))
       = ''1020304050604f80''
   \<and> traceId (requestIdentity (requestIdentifierContext Map.empty traceExample spanExample))
       = ''000102030405460788090a0b0c0d0eff''"
proof -
  have k: "\<forall>k\<in>set identityKeys. (Map.empty :: header_map) k = None" by simp
  have u: "bytesToUuid traceExample = ''00010203-0405-4607-88090a0b-0c0d0eff''"
    by (simp add: bytesToUuid_def hex_examples formatHexAsUUID_def slice_def)
  from no_inbound_identity[OF uuidBuffer_examples k] show ?thesis
    by (simp add: uuidBuffer_examples hex_examples u)
qed

subsection \<open>A correlation identifier only\<close>

text \<open>
  Claim C4: when \<^verbatim>\<open>correlation-id\<close> is \<^verbatim>\<open>11111111-1111-1111-1111-111111111111\<close> and no other
  identity key is there, the request and session identifiers are that value, and the trace
  identifier is that value without its first hyphen.
\<close>

theorem correlation_only:
  assumes "hs ''correlation-id'' = Some (Some ''11111111-1111-1111-1111-111111111111'')"
    and "\<forall>k\<in>set identityKeys. k \<noteq> ''correlation-id'' \<longrightarrow> hs k = None"
  shows "requestId (requestIdentity (requestIdentifierContext hs trace span))
           = ''11111111-1111-1111-1111-111111111111''
    \<and> sessionId (requestIdentity (requestIdentifierContext hs trace span))
           = ''11111111-1111-1111-1111-111111111111''
    \<and> traceId (requestIdentity (requestIdentifierContext hs trace span))
           = ''111111111111-1111-1111-111111111111''"
proof -
  have c: "get hs ''correlation-id'' = Some ''11111111-1111-1111-1111-111111111111''"
    using assms(1) by (simp add: get_def)
  have g: "get hs ''request-id'' = None" "get hs ''x-request-id'' = None"
    "get hs ''session-id'' = None" "get hs ''x-session-id'' = None"
    "get hs ''trace-id'' = None" "get hs ''x-trace-id'' = None" "get hs ''x-b3-traceid'' = None"
    using assms(2) by (simp_all add: identityKeys_def get_def)
  have r: "convertMaybeUuidToHexString (Some ''11111111-1111-1111-1111-111111111111'')
      = Some ''111111111111-1111-1111-111111111111''"
    by (simp add: convertMaybeUuidToHexString_def)
  show ?thesis
    by (simp add: requestIdentifierContext_def Let_def c g r or_js_None or_js_def or_else_def
        truthy_def)
qed

theorem correlation_only_witness:
  "requestId (requestIdentity (requestIdentifierContext
      [''correlation-id'' \<mapsto> Some ''11111111-1111-1111-1111-111111111111'']
      traceExample spanExample)) = ''11111111-1111-1111-1111-111111111111''
   \<and> sessionId (requestIdentity (requestIdentifierContext
      [''correlation-id'' \<mapsto> Some ''11111111-1111-1111-1111-111111111111'']
      traceExample spanExample)) = ''11111111-1111-1111-1111-111111111111''
   \<and> traceId (requestIdentity (requestIdentifierContext
      [''correlation-id'' \<mapsto> Some ''11111111-1111-1111-1111-111111111111'']
      traceExample spanExample)) = ''111111111111-1111-1111-111111111111''"
proof -
  let ?hs = "[''correlation-id'' \<mapsto> Some ''11111111-1111-1111-1111-111111111111'']
    :: header_map"
  have a: "?hs ''correlation-id'' = Some (Some ''11111111-1111-1111-1111-111111111111'')"
    by simp
  have b: "\<forall>k\<in>set identityKeys. k \<noteq> ''correlation-id'' \<longrightarrow> ?hs k = None"
    by simp
  from correlation_only[OF a b] show ?thesis .
qed

subsection \<open>The fields of the bundle are non-empty\<close>

text \<open>
  Claim C5: for every inbound header map, the five required fields of the resolved bundle
  are non-empty strings, and the parent identifier is absent or a non-empty string. The two
  buffers are as \<^verbatim>\<open>uuidv4\<close> fills them.
\<close>

theorem bundle_fields_nonempty:
  assumes "uuidBuffer trace" and "uuidBuffer span"
  shows "correlationId (requestIdentity (requestIdentifierContext hs trace span)) \<noteq> []
    \<and> requestId (requestIdentity (requestIdentifierContext hs trace span)) \<noteq> []
    \<and> sessionId (requestIdentity (requestIdentifierContext hs trace span)) \<noteq> []
    \<and> spanId (requestIdentity (requestIdentifierContext hs trace span)) \<noteq> []
    \<and> traceId (requestIdentity (requestIdentifierContext hs trace span)) \<noteq> []
    \<and> (case parentId (requestIdentity (requestIdentifierContext hs trace span)) of
          None \<Rightarrow> True
        | Some p \<Rightarrow> p \<noteq> [])"
proof -
  note t = uuidBuffer_hex_nonempty[OF assms(1)]
  note s = uuidBuffer_hex_nonempty[OF assms(2)]
  have p: "(case (if truthy x then x else None) of None \<Rightarrow> True | Some p \<Rightarrow> p \<noteq> [])" for x
    by (simp add: truthy_def split: option.splits)
  show ?thesis
    by (simp add: requestIdentifierContext_def Let_def or_else_nonempty bytesToUuid_nonempty
        t s p)
qed

theorem bundle_fields_nonempty_witness:
  "uuidBuffer traceExample \<and> uuidBuffer spanExample
   \<and> correlationId (requestIdentity (requestIdentifierContext
        [''correlation-id'' \<mapsto> Some [], ''x-trace-id'' \<mapsto> None, ''parent-id'' \<mapsto> Some []]
        traceExample spanExample)) \<noteq> []
   \<and> requestId (requestIdentity (requestIdentifierContext
        [''correlation-id'' \<mapsto> Some [], ''x-trace-id'' \<mapsto> None, ''parent-id'' \<mapsto> Some []]
        traceExample spanExample)) \<noteq> []
   \<and> sessionId (requestIdentity (requestIdentifierContext
        [''correlation-id'' \<mapsto> Some [], ''x-trace-id'' \<mapsto> None, ''parent-id'' \<mapsto> Some []]
        traceExample spanExample)) \<noteq> []
   \<and> spanId (requestIdentity (requestIdentifierContext
        [''correlation-id'' \<mapsto> Some [], ''x-trace-id'' \<mapsto> None, ''parent-id'' \<mapsto> Some []]
        traceExample spanExample)) \<noteq> []
   \<and> traceId (requestIdentity (requestIdentifierContext
        [''correlation-id'' \<mapsto> Some [], ''x-trace-id'' \<mapsto> None, ''parent-id'' \<mapsto> Some []]
        traceExample spanExample)) \<noteq> []
   \<and> parentId (requestIdentity (requestIdentifierContext
        [''correlation-id'' \<mapsto> Some [], ''x-trace-id'' \<mapsto> None, ''parent-id'' \<mapsto> Some []]
        traceExample spanExample)) = None"
proof -
  let ?hs = "[''correlation-id'' \<mapsto> Some [], ''x-trace-id'' \<mapsto> None, ''parent-id'' \<mapsto> Some []]
    :: header_map"
  have p: "parentId (requestIdentity (requestIdentifierContext ?hs traceExample spanExample))
      = None"
    by (simp add: requestIdentifierContext_def get_def or_js_def truthy_def)
  from bundle_fields_nonempty[OF uuidBuffer_examples, of ?hs] p show ?thesis
    by (simp add: uuidBuffer_examples)
qed

subsection \<open>The outbound header set\<close>

text \<open>
  Claim C6: the outbound header set has the plain and the \<^verbatim>\<open>x-\<close> key of every field of the
  bundle, with the same value, and for the parent, span and trace identifiers the
  \<^verbatim>\<open>x-b3-\<close> key with that value too. Without a parent identifier its three keys are there
  with the value \<^verbatim>\<open>undefined\<close>.
\<close>

theorem outbound_header_synonyms:
  "outboundHeaders ctx ''correlation-id'' = Some (Some (correlationId (requestIdentity ctx)))
   \<and> outboundHeaders ctx ''x-correlation-id'' = Some (Some (correlationId (requestIdentity ctx)))
   \<and> outboundHeaders ctx ''parent-id'' = Some (parentId (requestIdentity ctx))
   \<and> outboundHeaders ctx ''x-parent-id'' = Some (parentId (requestIdentity ctx))
   \<and> outboundHeaders ctx ''x-b3-parentspanid'' = Some (parentId (requestIdentity ctx))
   \<and> outboundHeaders ctx ''request-id'' = Some (Some (requestId (requestIdentity ctx)))
   \<and> outboundHeaders ctx ''x-request-id'' = Some (Some (requestId (requestIdentity ctx)))
   \<and> outboundHeaders ctx ''session-id'' = Some (Some (sessionId (requestIdentity ctx)))
   \<and> outboundHeaders ctx ''x-session-id'' = Some (Some (sessionId (requestIdentity ctx)))
   \<and> outboundHeaders ctx ''span-id'' = Some (Some (spanId (requestIdentity ctx)))
   \<and> outboundHeaders ctx ''x-span-id'' = Some (Some (spanId (requestIdentity ctx)))
   \<and> outboundHeaders ctx ''x-b3-spanid'' = Some (Some (spanId (requestIdentity ctx)))
   \<and> outboundHeaders ctx ''trace-id'' = Some (Some (traceId (requestIdentity ctx)))
   \<and> outboundHeaders ctx ''x-trace-id'' = Some (Some (traceId (requestIdentity ctx)))
   \<and> outboundHeaders ctx ''x-b3-traceid'' = Some (Some (traceId (requestIdentity ctx)))"
  by (simp add: outboundHeaders_def)

subsection \<open>Identity headers override the handler's\<close>

text \<open>
  Claim C7: when the handler returns a result, the middleware returns it with every identity
  header set to the value of the resolved bundle, whatever the handler had put there; every
  other header of the handler's result and every other property of the result are as the
  handler returned them.
\<close>

theorem identity_headers_override:
  assumes "headers event = Some hs" and "next event None = Inr (Some result)"
  shows "\<exists>final.
      DefaultAPIGatewayProxyRequestIdentifyingMiddleware next trace span event = Inr final
    \<and> envelope.more final = envelope.more result
    \<and> (\<forall>k. k \<notin> set identityKeys \<longrightarrow> header final k = header result k)
    \<and> header final ''correlation-id''
        = Some (Some (correlationId (requestIdentity (requestIdentifierContext hs trace span))))
    \<and> header final ''x-correlation-id''
        = Some (Some (correlationId (requestIdentity (requestIdentifierContext hs trace span))))
    \<and> header final ''parent-id''
        = Some (parentId (requestIdentity (requestIdentifierContext hs trace span)))
    \<and> header final ''x-parent-id''
        = Some (parentId (requestIdentity (requestIdentifierContext hs trace span)))
    \<and> header final ''x-b3-parentspanid''
        = Some (parentId (requestIdentity (requestIdentifierContext hs trace span)))
    \<and> header final ''request-id''
        = Some (Some (requestId (requestIdentity (requestIdentifierContext hs trace span))))
    \<and> header final ''x-request-id''
        = Some (Some (requestId (requestIdentity (requestIdentifierContext hs trace span))))
    \<and> header final ''session-id''
        = Some (Some (sessionId (requestIdentity (requestIdentifierContext hs trace span))))
    \<and> header final ''x-session-id''
        = Some (Some (sessionId (requestIdentity (requestIdentifierContext hs trace span))))
    \<and> header final ''span-id''
        = Some (Some (spanId (requestIdentity (requestIdentifierContext hs trace span))))
    \<and> header final ''x-span-id''
        = Some (Some (spanId (requestIdentity (requestIdentifierContext hs trace span))))
    \<and> header final ''x-b3-spanid''
        = Some (Some (spanId (requestIdentity (requestIdentifierContext hs trace span))))
    \<and> header final ''trace-id''
        = Some (Some (traceId (requestIdentity (requestIdentifierContext hs trace span))))
    \<and> header final ''x-trace-id''
        = Some (Some (traceId (requestIdentity (requestIdentifierContext hs trace span))))
    \<and> header final ''x-b3-traceid''
        = Some (Some (traceId (requestIdentity (requestIdentifierContext hs trace span))))"
proof -
  let ?ctx = "requestIdentifierContext hs trace span"
  let ?rh = "case headers result of None \<Rightarrow> Map.empty | Some rh \<Rightarrow> rh"
  let ?final = "result\<lparr>headers := Some (?rh ++ outboundHeaders ?ctx)\<rparr>"
  have run: "DefaultAPIGatewayProxyRequestIdentifyingMiddleware next trace span event
      = Inr ?final"
    using assms by (rule middleware_fulfilled)
  have more: "envelope.more ?final = envelope.more result" by simp
  have hd: "header ?final k = (?rh ++ outboundHeaders ?ctx) k" for k
    by (simp add: header_def)
  have frame: "\<forall>k. k \<notin> set identityKeys \<longrightarrow> header ?final k = header result k"
    by (simp add: hd map_add_outside outboundHeaders_outside header_def split: option.splits)
  have ins: "outboundHeaders ?ctx k = Some v \<Longrightarrow> header ?final k = Some v" for k v
    by (simp add: hd map_add_inside)
  have own: "header ?final ''correlation-id'' = Some (Some (correlationId (requestIdentity ?ctx)))"
    "header ?final ''x-correlation-id'' = Some (Some (correlationId (requestIdentity ?ctx)))"
    "header ?final ''parent-id'' = Some (parentId (requestIdentity ?ctx))"
    "header ?final ''x-parent-id'' = Some (parentId (requestIdentity ?ctx))"
    "header ?final ''x-b3-parentspanid'' = Some (parentId (requestIdentity ?ctx))"
    "header ?final ''request-id'' = Some (Some (requestId (requestIdentity ?ctx)))"
    "header ?final ''x-request-id'' = Some (Some (requestId (requestIdentity ?ctx)))"
    "header ?final ''session-id'' = Some (Some (sessionId (requestIdentity ?ctx)))"
    "header ?final ''x-session-id'' = Some (Some (sessionId (requestIdentity ?ctx)))"
    "header ?final ''span-id'' = Some (Some (spanId (requestIdentity ?ctx)))"
    "header ?final ''x-span-id'' = Some (Some (spanId (requestIdentity ?ctx)))"
    "header ?final ''x-b3-spanid'' = Some (Some (spanId (requestIdentity ?ctx)))"
    "header ?final ''trace-id'' = Some (Some (traceId (requestIdentity ?ctx)))"
    "header ?final ''x-trace-id'' = Some (Some (traceId (requestIdentity ?ctx)))"
    "header ?final ''x-b3-traceid'' = Some (Some (traceId (requestIdentity ?ctx)))"
    by (rule ins, simp add: outboundHeaders_def)+
  show ?thesis
    using run more frame own by (intro exI[of _ ?final]) (simp only: simp_thms)
qed

theorem identity_headers_override_witness:
  "\<exists>final.
     DefaultAPIGatewayProxyRequestIdentifyingMiddleware
       (\<lambda>event context. Inr (Some \<lparr>headers = Some [''correlation-id'' \<mapsto> Some ''mine'',
            ''content-type'' \<mapsto> Some ''text/plain''], \<dots> = ''body''\<rparr>)
          :: unit thrown + string envelope_scheme option)
       traceExample spanExample
       \<lparr>headers = Some [''correlation-id'' \<mapsto> Some ''abc'']\<rparr> = Inr final
   \<and> envelope.more final = ''body''
   \<and> header final ''content-type'' = Some (Some ''text/plain'')
   \<and> header final ''correlation-id'' = Some (Some ''abc'')
   \<and> header final ''parent-id'' = Some None"
proof -
  let ?hs = "[''correlation-id'' \<mapsto> Some ''abc''] :: header_map"
  let ?event = "\<lparr>headers = Some ?hs\<rparr>"
  let ?result = "\<lparr>headers = Some [''correlation-id'' \<mapsto> Some ''mine'',
            ''content-type'' \<mapsto> Some ''text/plain''], \<dots> = ''body''\<rparr>"
  let ?next = "\<lambda>event context. Inr (Some ?result)
          :: unit thrown + string envelope_scheme option"
  have a: "headers ?event = Some ?hs" by simp
  have b: "?next ?event None = Inr (Some ?result)" by simp
  have k: "''content-type'' \<notin> set identityKeys" by (simp add: identityKeys_def)
  have c: "correlationId (requestIdentity (requestIdentifierContext ?hs traceExample spanExample))
      = ''abc''"
    by (simp add: requestIdentifierContext_def get_def or_js_def or_else_def truthy_def)
  have p: "parentId (requestIdentity (requestIdentifierContext ?hs traceExample spanExample))
      = None"
    by (simp add: requestIdentifierContext_def Let_def get_def or_js_def truthy_def)
  have r: "header ?result ''content-type'' = Some (Some ''text/plain'')"
    by (simp add: header_def)
  from identity_headers_override[of ?event ?hs ?next ?result traceExample spanExample, OF a b] obtain final where
    f: "DefaultAPIGatewayProxyRequestIdentifyingMiddleware ?next traceExample spanExample ?event
        = Inr final"
      "envelope.more final = envelope.more ?result"
      "\<forall>k. k \<notin> set identityKeys \<longrightarrow> header final k = header ?result k"
      "header final ''correlation-id'' = Some (Some (correlationId (requestIdentity
         (requestIdentifierContext ?hs traceExample spanExample))))"
      "header final ''parent-id'' = Some (parentId (requestIdentity
         (requestIdentifierContext ?hs traceExample spanExample)))"
    by blast
  from f(3) k r have "header final ''content-type'' = Some (Some ''text/plain'')" by simp
  moreover from f(2) have "envelope.more final = ''body''" by simp
  ultimately show ?thesis using f(1) f(4) f(5) c p by (intro exI[of _ final]) simp
qed

subsection \<open>Hyphenating and stripping\<close>

text \<open>
  Claim C8: for a hexadecimal string \<open>h\<close> of 32 characters, removing every hyphen from
  \<open>convertMaybeHexStringToUuid h\<close> gives \<open>h\<close> back, and hyphenating that again gives the
  hyphenated form back.
\<close>

theorem strip_hyphenated_roundtrip:
  assumes "length h = 32" and "isHexString h"
  shows "map_option stripAllHyphens (convertMaybeHexStringToUuid (Some h)) = Some h
    \<and> map_option (\<lambda>u. formatHexAsUUID (stripAllHyphens u))
          (convertMaybeHexStringToUuid (Some h))
        = convertMaybeHexStringToUuid (Some h)"
proof -
  from assms(1) have "h \<noteq> []" by auto
  moreover have "stripAllHyphens (formatHexAsUUID h) = h"
    using assms by (intro stripAllHyphens_formatHexAsUUID isHexString_no_hyphen) simp_all
  ultimately show ?thesis by (simp add: convertMaybeHexStringToUuid_def)
qed

theorem strip_hyphenated_roundtrip_witness:
  "length ''0123456789abcdef0123456789ABCDEF'' = 32
   \<and> isHexString ''0123456789abcdef0123456789ABCDEF''
   \<and> convertMaybeHexStringToUuid (Some ''0123456789abcdef0123456789ABCDEF'')
       = Some ''01234567-89ab-cdef-01234567-89ABCDEF''
   \<and> stripAllHyphens ''01234567-89ab-cdef-01234567-89ABCDEF''
       = ''0123456789abcdef0123456789ABCDEF''
   \<and> formatHexAsUUID (stripAllHyphens ''01234567-89ab-cdef-01234567-89ABCDEF'')
       = ''01234567-89ab-cdef-01234567-89ABCDEF''"
proof -
  have l: "length ''0123456789abcdef0123456789ABCDEF'' = 32" by simp
  have x: "isHexString ''0123456789abcdef0123456789ABCDEF''" by (simp add: isHexString_def)
  have f: "convertMaybeHexStringToUuid (Some ''0123456789abcdef0123456789ABCDEF'')
       = Some ''01234567-89ab-cdef-01234567-89ABCDEF''"
    by (simp add: convertMaybeHexStringToUuid_def formatHexAsUUID_def slice_def)
  have g: "formatHexAsUUID ''0123456789abcdef0123456789ABCDEF''
       = ''01234567-89ab-cdef-01234567-89ABCDEF''"
    by (simp add: formatHexAsUUID_def slice_def)
  from strip_hyphenated_roundtrip[OF l x] f g l x show ?thesis by simp
qed

subsection \<open>A failing handler\<close>

text \<open>
  Claim C9: when the handler, called by the middleware, fails, the middleware fails with the
  very same value, and returns no response.
\<close>

theorem handler_failure_propagates:
  assumes "headers event = Some hs" and "next event None = Inl failure"
  shows "DefaultAPIGatewayProxyRequestIdentifyingMiddleware next trace span event = Inl failure"
  using assms by (simp add: DefaultAPIGatewayProxyRequestIdentifyingMiddleware_def)

theorem handler_failure_propagates_witness:
  "DefaultAPIGatewayProxyRequestIdentifyingMiddleware
     (\<lambda>event context. Inl (Thrown ''boom'') :: string thrown + envelope option)
     traceExample spanExample \<lparr>headers = Some [''trace-id'' \<mapsto> Some ''abc'']\<rparr>
   = Inl (Thrown ''boom'')"
proof -
  let ?hs = "[''trace-id'' \<mapsto> Some ''abc''] :: header_map"
  have a: "headers \<lparr>headers = Some ?hs\<rparr> = Some ?hs" by simp
  show ?thesis by (rule handler_failure_propagates[OF a]) simp
qed

subsection \<open>The outcome depends on the inputs only\<close>

text \<open>
  Claim C10: two invocations with the same inbound headers, the same two buffers and
  handlers that answer the same give the same bundle and the same outcome, whatever else
  the two events hold and however else the two handlers behave.
\<close>

theorem middleware_depends_only_on_inputs:
  assumes "headers event1 = headers event2"
    and "next1 event1 None = next2 event2 None"
  shows "map_option (\<lambda>hs. requestIdentifierContext hs trace span) (headers event1)
      = map_option (\<lambda>hs. requestIdentifierContext hs trace span) (headers event2)
    \<and> DefaultAPIGatewayProxyRequestIdentifyingMiddleware next1 trace span event1
      = DefaultAPIGatewayProxyRequestIdentifyingMiddleware next2 trace span event2"
  using assms
  by (simp add: DefaultAPIGatewayProxyRequestIdentifyingMiddleware_def split: option.splits)

theorem middleware_depends_only_on_inputs_witness:
  "headers \<lparr>headers = Some [''span-id'' \<mapsto> Some ''abc''], \<dots> = ''first''\<rparr>
     = headers \<lparr>headers = Some [''span-id'' \<mapsto> Some ''abc''], \<dots> = False\<rparr>
   \<and> DefaultAPIGatewayProxyRequestIdentifyingMiddleware
       (\<lambda>event context. Inr (Some \<lparr>headers = None\<rparr>) :: unit thrown + envelope option)
       traceExample spanExample
       \<lparr>headers = Some [''span-id'' \<mapsto> Some ''abc''], \<dots> = ''first''\<rparr>
     = DefaultAPIGatewayProxyRequestIdentifyingMiddleware
       (\<lambda>event context. case context of
            None \<Rightarrow> Inr (Some \<lparr>headers = None\<rparr>)
          | Some ctx \<Rightarrow> Inl TypeError)
       traceExample spanExample
       \<lparr>headers = Some [''span-id'' \<mapsto> Some ''abc''], \<dots> = False\<rparr>"
proof -
  let ?event1 = "\<lparr>headers = Some [''span-id'' \<mapsto> Some ''abc''], \<dots> = ''first''\<rparr>"
  let ?event2 = "\<lparr>headers = Some [''span-id'' \<mapsto> Some ''abc''], \<dots> = False\<rparr>"
  let ?next1 = "\<lambda>event context. Inr (Some \<lparr>headers = None\<rparr>)
    :: unit thrown + envelope option"
  let ?next2 = "\<lambda>event context. case context of
            None \<Rightarrow> Inr (Some (\<lparr>headers = None\<rparr> :: envelope))
          | Some ctx \<Rightarrow> Inl (TypeError :: unit thrown)"
  have a: "headers ?event1 = headers ?event2" by simp
  have b: "?next1 ?event1 None = ?next2 ?event2 None" by simp
  from middleware_depends_only_on_inputs[of ?event1 ?event2 ?next1 ?next2 traceExample spanExample, OF a b] a
  show ?thesis by blast
qed

end
